theory Spec2Isabelle
  imports
    Complex_Main
    "HOL-Library.Multiset"
    "HOL-Library.Product_Lexorder"
    "HOL-Library.List_Lexorder"
    "HOL-Library.Char_ord"
begin

section \<open>Data model\<close>

text \<open>
  A pandas timestamp is either \<open>NaT\<close> or a wall-clock reading (nanoseconds since
  1970-01-01T00:00 on that clock) together with its UTC offset in nanoseconds; the
  offset is \<open>None\<close> for a timezone-naive value (\<open>tzinfo is None\<close>).
\<close>

datatype pd_ts = NaT | Timestamp int "int option"

text \<open>
  The instant a timestamp denotes, as pandas reads it with \<open>utc=True\<close>: an aware value
  is converted, a naive one is taken to be UTC already.
\<close>

fun utc_value :: "pd_ts \<Rightarrow> int option" where
  "utc_value NaT = None"
| "utc_value (Timestamp w None) = Some w"
| "utc_value (Timestamp w (Some off)) = Some (w - off)"

text \<open>Ascending order of a timestamp column: by instant, \<open>NaT\<close> last (\<open>na_position="last"\<close>).\<close>

definition ts_key :: "pd_ts \<Rightarrow> bool \<times> int" where
  "ts_key t = (case utc_value t of None \<Rightarrow> (True, 0) | Some i \<Rightarrow> (False, i))"

definition ns_per_day :: int where
  "ns_per_day = 86400000000000"

text \<open>
  \<open>pd.to_datetime(col, utc=True).dt.date.astype(str)\<close>: the UTC calendar day. The day is
  kept as its number since the epoch (the \<open>YYYY-MM-DD\<close> rendering is injective), and
  \<open>None\<close> stands for the string \<open>NaT\<close>.
\<close>

definition utc_date :: "pd_ts \<Rightarrow> int option" where
  "utc_date t = map_option (\<lambda>i. i div ns_per_day) (utc_value t)"

text \<open>
  The rows of the two tidy frames, as the normalizers build them. The load is \<open>None\<close>
  where \<open>float()\<close> failed with an error the code catches.
\<close>

record 'f system_row =
  ts_utc :: pd_ts
  ts_local :: pd_ts
  location :: string
  load_mw :: "'f option"
  is_system :: bool

record 'f zonal_row =
  z_ts_utc :: pd_ts
  z_ts_local :: pd_ts
  zone_id :: "string option"
  zone_name :: "string option"
  z_load_mw :: "'f option"

text \<open>The Python exceptions that can leave the code.\<close>

datatype error = ValueError | TypeError | OverflowError | OtherError

section \<open>Python values\<close>

text \<open>
  A parsed JSON payload: \<open>None\<close>, \<open>bool\<close>, \<open>int\<close>, \<open>float\<close>, \<open>str\<close>, \<open>list\<close> and \<open>dict\<close>. A float is
  finite or one of the values the parser accepts for the literals \<open>NaN\<close>, \<open>Infinity\<close> and
  \<open>-Infinity\<close>. A dict is the list of its items in insertion order, looked up with
  \<open>map_of\<close>. A string is the list of the bytes of its UTF-8 encoding.
\<close>

datatype pyfloat = Finite rat | NaN | PosInf | NegInf

datatype json =
    JNull
  | JBool bool
  | JInt int
  | JFloat pyfloat
  | JStr string
  | JList "json list"
  | JDict "(string \<times> json) list"

type_synonym dict = "(string \<times> json) list"

text \<open>Truth value of an object, as \<open>if d[k]\<close> tests it.\<close>

fun truthy :: "json \<Rightarrow> bool" where
  "truthy JNull = False"
| "truthy (JBool b) = b"
| "truthy (JInt n) = (n \<noteq> 0)"
| "truthy (JFloat x) = (x \<noteq> Finite 0)"
| "truthy (JStr s) = (s \<noteq> [])"
| "truthy (JList xs) = (xs \<noteq> [])"
| "truthy (JDict d) = (d \<noteq> [])"

text \<open>\<open>v not in (None, "")\<close>.\<close>

definition not_blank :: "json \<Rightarrow> bool" where
  "not_blank v \<longleftrightarrow> v \<noteq> JNull \<and> v \<noteq> JStr []"

text \<open>
  The loop \<open>for k in keys: if k in d and ok(d[k]): return d[k]\<close>, ending in \<open>return None\<close>.
\<close>

fun first_where :: "(json \<Rightarrow> bool) \<Rightarrow> dict \<Rightarrow> string list \<Rightarrow> json option" where
  "first_where ok d [] = None"
| "first_where ok d (k # ks) =
     (case map_of d k of
        Some v \<Rightarrow> if ok v then Some v else first_where ok d ks
      | None \<Rightarrow> first_where ok d ks)"

text \<open>
  The library calls whose result the code only passes on are parameters of the model,
  each returning a value or the exception it raises:
  \<open>pd.to_datetime(x, utc=False, errors="coerce")\<close> (taken to return a scalar), \<open>float(x)\<close>,
  \<open>str(x)\<close> for a float, a list or a dict, and the string methods \<open>strip\<close>, \<open>upper\<close> and
  \<open>isdigit\<close> on a string that is not pure ASCII.
\<close>

record 'f pylib =
  to_datetime :: "json \<Rightarrow> error + pd_ts"
  py_float :: "json \<Rightarrow> error + 'f"
  py_repr :: "json \<Rightarrow> string"
  uni_strip :: "string \<Rightarrow> string"
  uni_upper :: "string \<Rightarrow> string"
  uni_isdigit :: "string \<Rightarrow> bool"

text \<open>
  The string methods. On a string of ASCII characters only (no byte with the high bit
  set) they are computed here; on any other string they are the library's.
\<close>

definition is_ascii :: "string \<Rightarrow> bool" where
  "is_ascii s = list_all (\<lambda>c. \<not> digit7 c) s"

definition is_space :: "char \<Rightarrow> bool" where
  "is_space c \<longleftrightarrow>
     c \<in> set [CHR '' '', CHR 0x09, CHR 0x0A, CHR 0x0B, CHR 0x0C, CHR 0x0D,
              CHR 0x1C, CHR 0x1D, CHR 0x1E, CHR 0x1F]"

definition ascii_strip :: "string \<Rightarrow> string" where
  "ascii_strip s = rev (dropWhile is_space (rev (dropWhile is_space s)))"

definition upper_char :: "char \<Rightarrow> char" where
  "upper_char c =
     (case map_of (zip ''abcdefghijklmnopqrstuvwxyz'' ''ABCDEFGHIJKLMNOPQRSTUVWXYZ'') c of
        Some u \<Rightarrow> u | None \<Rightarrow> c)"

definition ascii_upper :: "string \<Rightarrow> string" where
  "ascii_upper s = map upper_char s"

definition ascii_isdigit :: "string \<Rightarrow> bool" where
  "ascii_isdigit s \<longleftrightarrow> s \<noteq> [] \<and> list_all (\<lambda>c. c \<in> set ''0123456789'') s"

definition strip :: "'f pylib \<Rightarrow> string \<Rightarrow> string" where
  "strip L s = (if is_ascii s then ascii_strip s else uni_strip L s)"

definition upper :: "'f pylib \<Rightarrow> string \<Rightarrow> string" where
  "upper L s = (if is_ascii s then ascii_upper s else uni_upper L s)"

definition isdigit :: "'f pylib \<Rightarrow> string \<Rightarrow> bool" where
  "isdigit L s = (if is_ascii s then ascii_isdigit s else uni_isdigit L s)"

definition startswith :: "string \<Rightarrow> string \<Rightarrow> bool" where
  "startswith s p \<longleftrightarrow> take (length p) s = p"

text \<open>\<open>str(n)\<close> for an integer.\<close>

function str_nat :: "nat \<Rightarrow> string" where
  "str_nat n =
     (if n < 10 then [''0123456789'' ! n] else str_nat (n div 10) @ [''0123456789'' ! (n mod 10)])"
  by pat_completeness auto
termination
  by (relation "measure id") auto

declare str_nat.simps [simp del]

definition str_int :: "int \<Rightarrow> string" where
  "str_int i = (if i < 0 then CHR ''-'' # str_nat (nat (- i)) else str_nat (nat i))"

text \<open>
  \<open>int(x)\<close> for a float: truncation towards zero; \<open>ValueError\<close> for \<open>nan\<close> and
  \<open>OverflowError\<close> for an infinity.
\<close>

fun int_of_float :: "pyfloat \<Rightarrow> error + int" where
  "int_of_float (Finite q) = Inr (if q < 0 then \<lceil>q\<rceil> else \<lfloor>q\<rfloor>)"
| "int_of_float NaN = Inl ValueError"
| "int_of_float PosInf = Inl OverflowError"
| "int_of_float NegInf = Inl OverflowError"

fun py_str :: "'f pylib \<Rightarrow> json \<Rightarrow> string" where
  "py_str L (JStr s) = s"
| "py_str L (JInt n) = str_int n"
| "py_str L (JBool b) = (if b then ''True'' else ''False'')"
| "py_str L JNull = ''None''"
| "py_str L v = py_repr L v"

text \<open>
  \<open>try: load_f = float(lval)\<close> with \<open>except (TypeError, ValueError): load_f = None\<close>: any
  other exception leaves the normalizer.
\<close>

definition float_or_none :: "'f pylib \<Rightarrow> json \<Rightarrow> error + 'f option" where
  "float_or_none L lval =
     (case py_float L lval of
        Inr x \<Rightarrow> Inr (Some x)
      | Inl e \<Rightarrow> if e = TypeError \<or> e = ValueError then Inr None else Inl e)"

text \<open>
  The UTC timestamp of a row, from the parsed local one:
  \<open>ts_local.tz_convert("UTC")\<close> when it is not \<open>NaT\<close> and has a \<open>tzinfo\<close>,
  \<open>ts_local.tz_localize("UTC")\<close> when it is not \<open>NaT\<close> and has none, else \<open>NaT\<close>.
  The two pandas methods raise outside these guards (converting a naive value, localizing
  an aware one); the code never calls them there, and the last equation of each function
  below is never reached from \<open>derive_utc\<close>.
\<close>

fun tzinfo :: "pd_ts \<Rightarrow> int option" where
  "tzinfo NaT = None"
| "tzinfo (Timestamp w off) = off"

fun tz_convert_utc :: "pd_ts \<Rightarrow> pd_ts" where
  "tz_convert_utc (Timestamp w (Some off)) = Timestamp (w - off) (Some 0)"
| "tz_convert_utc t = t"

fun tz_localize_utc :: "pd_ts \<Rightarrow> pd_ts" where
  "tz_localize_utc (Timestamp w None) = Timestamp w (Some 0)"
| "tz_localize_utc t = t"

definition derive_utc :: "pd_ts \<Rightarrow> pd_ts" where
  "derive_utc tsl =
     (if tsl \<noteq> NaT \<and> tzinfo tsl \<noteq> None then tz_convert_utc tsl
      else if tsl \<noteq> NaT then tz_localize_utc tsl
      else NaT)"

text \<open>
  What a loop leaves when each step appends a row or raises: the first exception, or all
  the rows. (No step has another effect, so the rows appended before an exception are
  lost with the list.)
\<close>

fun raise_first :: "(error + 'a) list \<Rightarrow> error + 'a list" where
  "raise_first [] = Inr []"
| "raise_first (Inl e # steps) = Inl e"
| "raise_first (Inr x # steps) =
     (case raise_first steps of Inl e \<Rightarrow> Inl e | Inr xs \<Rightarrow> Inr (x # xs))"

text \<open>The debug files under \<open>data/raw\<close>: a path and the payload dumped there.\<close>

type_synonym debug_files = "string \<Rightarrow> json option"

section \<open>System normalizer (fetch\_isone\_fivemin\_load.py)\<close>

definition SYS_TIME_KEYS :: "string list" where
  "SYS_TIME_KEYS = [''BeginDate'', ''BeginDateTime'', ''BeginDateUTC'', ''BeginDatetime'']"

definition SYS_VALUE_KEYS :: "string list" where
  "SYS_VALUE_KEYS = [''LoadMw'', ''LoadMW'', ''Load'', ''Value'']"

definition LOC_KEYS :: "string list" where
  "LOC_KEYS = [''Location'', ''Loc'', ''Zone'', ''LocName'']"

definition LOC_TEXT_KEYS :: "string list" where
  "LOC_TEXT_KEYS = [''#text'', ''$'', ''text'', ''_text'', ''_value'', ''value'', ''name'',
     ''LocName'', ''LocShortName'']"

definition extract_time :: "dict \<Rightarrow> json option" where
  "extract_time d = first_where truthy d SYS_TIME_KEYS"

definition extract_val :: "dict \<Rightarrow> json option" where
  "extract_val d = first_where not_blank d SYS_VALUE_KEYS"

text \<open>
  The inner loops of \<open>extract_loc\<close> over a dict-valued location: the first text-holder key
  with a string that is not blank, then the first such string among all items.
\<close>

fun text_holder :: "'f pylib \<Rightarrow> dict \<Rightarrow> string list \<Rightarrow> string option" where
  "text_holder L v [] = None"
| "text_holder L v (tk # tks) =
     (case map_of v tk of
        Some (JStr s) \<Rightarrow> if strip L s \<noteq> [] then Some (strip L s) else text_holder L v tks
      | _ \<Rightarrow> text_holder L v tks)"

fun any_text :: "'f pylib \<Rightarrow> dict \<Rightarrow> string option" where
  "any_text L [] = None"
| "any_text L ((tk, JStr s) # items) =
     (if strip L s \<noteq> [] then Some (strip L s) else any_text L items)"
| "any_text L ((tk, tv) # items) = any_text L items"

definition loc_text :: "'f pylib \<Rightarrow> json \<Rightarrow> string" where
  "loc_text L v =
     (case v of
        JDict vd \<Rightarrow>
          (case text_holder L vd LOC_TEXT_KEYS of
             Some s \<Rightarrow> s
           | None \<Rightarrow> (case any_text L vd of Some s \<Rightarrow> s | None \<Rightarrow> py_str L v))
      | _ \<Rightarrow> py_str L v)"

fun extract_loc_keys :: "'f pylib \<Rightarrow> dict \<Rightarrow> string list \<Rightarrow> string" where
  "extract_loc_keys L d [] = ''ISONE''"
| "extract_loc_keys L d (k # ks) =
     (case map_of d k of
        Some v \<Rightarrow> if truthy v then loc_text L v else extract_loc_keys L d ks
      | None \<Rightarrow> extract_loc_keys L d ks)"

definition extract_loc :: "'f pylib \<Rightarrow> dict \<Rightarrow> string" where
  "extract_loc L d = extract_loc_keys L d LOC_KEYS"

text \<open>
  One pass of the fast-path loop over an entry with a time and a value: the row it
  appends, or the exception \<open>pd.to_datetime\<close> or \<open>float\<close> raises.
\<close>

definition fast_record :: "'f pylib \<Rightarrow> json \<Rightarrow> json \<Rightarrow> error + 'f system_row" where
  "fast_record L tval lval =
     (case to_datetime L tval of
        Inl e \<Rightarrow> Inl e
      | Inr tsl \<Rightarrow>
          (case float_or_none L lval of
             Inl e \<Rightarrow> Inl e
           | Inr load_f \<Rightarrow>
               (let tsu = derive_utc tsl; loc = ''ISONE''
                in Inr \<lparr>ts_utc = tsu, ts_local = tsl, location = loc,
                        load_mw = load_f, is_system = True\<rparr>)))"

text \<open>What the fast path does for one entry of the list: nothing, a row, or an exception.\<close>

definition fast_row :: "'f pylib \<Rightarrow> json \<Rightarrow> (error + 'f system_row) list" where
  "fast_row L r =
     (case r of
        JDict d \<Rightarrow>
          (case (extract_time d, extract_val d) of
             (Some tval, Some lval) \<Rightarrow> [fast_record L tval lval]
           | _ \<Rightarrow> [])
      | _ \<Rightarrow> [])"

text \<open>
  The fast path: taken when the payload is a dict whose \<open>FiveMinSystemLoad\<close> is a list.
\<close>

definition fast_path :: "'f pylib \<Rightarrow> json \<Rightarrow> (error + 'f system_row) list" where
  "fast_path L payload =
     (case payload of
        JDict d \<Rightarrow>
          (case map_of d ''FiveMinSystemLoad'' of
             Some (JList rs) \<Rightarrow> concat (map (fast_row L) rs)
           | _ \<Rightarrow> [])
      | _ \<Rightarrow> [])"

text \<open>The same for \<open>walk\<close> at a dict node with a time and a value.\<close>

definition walk_record :: "'f pylib \<Rightarrow> dict \<Rightarrow> json \<Rightarrow> json \<Rightarrow> error + 'f system_row" where
  "walk_record L obj tval lval =
     (case to_datetime L tval of
        Inl e \<Rightarrow> Inl e
      | Inr tsl \<Rightarrow>
          (case float_or_none L lval of
             Inl e \<Rightarrow> Inl e
           | Inr load_f \<Rightarrow>
               (let tsu = derive_utc tsl;
                    loc = (let l = extract_loc L obj in if l = [] then ''ISONE'' else l)
                in Inr \<lparr>ts_utc = tsu, ts_local = tsl, location = loc, load_mw = load_f,
                        is_system =
                          (upper L loc \<in> set [''ISONE'', ''NEPOOL'', ''NEWENGLAND'', ''NE''])\<rparr>)))"

definition sysload_node_row :: "'f pylib \<Rightarrow> dict \<Rightarrow> (error + 'f system_row) list" where
  "sysload_node_row L obj =
     (case (extract_time obj, extract_val obj) of
        (Some tval, Some lval) \<Rightarrow> [walk_record L obj tval lval]
      | _ \<Rightarrow> [])"

fun sysload_walk :: "'f pylib \<Rightarrow> json \<Rightarrow> (error + 'f system_row) list" where
  "sysload_walk L (JDict obj) =
     sysload_node_row L obj @ concat (map (sysload_walk L) (map snd obj))"
| "sysload_walk L (JList its) = concat (map (sysload_walk L) its)"
| "sysload_walk L _ = []"

text \<open>
  The rows collected before the frame is built: those of the fast path, and
  \<open>if not rows: walk(payload)\<close>. An exception in either loop leaves the normalizer.
\<close>

definition sysload_rows :: "'f pylib \<Rightarrow> json \<Rightarrow> error + 'f system_row list" where
  "sysload_rows L payload =
     (case raise_first (fast_path L payload) of
        Inl e \<Rightarrow> Inl e
      | Inr rows \<Rightarrow> if rows = [] then raise_first (sysload_walk L payload) else Inr rows)"

definition sysload_debug_path :: string where
  "sysload_debug_path = ''data/raw/unexpected_shape_debug.json''"

text \<open>
  \<open>normalize_payload\<close>: the sorted frame; or \<open>ValueError\<close> after the payload has been dumped
  to the debug file, when no row was extracted; or the exception a library call raised.
  The sort is by \<open>(ts_utc, location)\<close>, \<open>NaT\<close> last.
\<close>

definition sysload_normalize_payload ::
  "'f pylib \<Rightarrow> json \<Rightarrow> debug_files \<Rightarrow> (error + 'f system_row list) \<times> debug_files" where
  "sysload_normalize_payload L payload files =
     (case sysload_rows L payload of
        Inl e \<Rightarrow> (Inl e, files)
      | Inr rows \<Rightarrow>
          if rows = [] then (Inl ValueError, files(sysload_debug_path \<mapsto> payload))
          else (Inr (sort_key (\<lambda>r. (ts_key (ts_utc r), location r)) rows), files))"

text \<open>
  An entry of the \<open>FiveMinSystemLoad\<close> list is plain when it is a scalar, or a dict whose
  values are all scalars and in which no key of \<open>LOC_KEYS\<close> has a truthy value.
\<close>

fun is_scalar :: "json \<Rightarrow> bool" where
  "is_scalar (JList its) = False"
| "is_scalar (JDict obj) = False"
| "is_scalar _ = True"

definition plain_entry :: "json \<Rightarrow> bool" where
  "plain_entry e =
     (case e of
        JDict d \<Rightarrow>
          list_all (\<lambda>kv. is_scalar (snd kv)) d \<and>
          list_all (\<lambda>k. case map_of d k of Some v \<Rightarrow> \<not> truthy v | None \<Rightarrow> True) LOC_KEYS
      | JList its \<Rightarrow> False
      | _ \<Rightarrow> True)"

section \<open>Zonal normalizer (fetch\_isone\_fivemin\_zonal\_load.py)\<close>

definition TIME_KEYS :: "string list" where
  "TIME_KEYS = [''interval_begin_date'', ''BeginDate'', ''BeginDateTime'', ''BeginDateUTC'',
     ''BeginDatetime'', ''StartTime'']"

definition ZONEID_KEYS :: "string list" where
  "ZONEID_KEYS = [''load_zone_id'', ''LoadZone'', ''LoadZoneId'', ''LoadZoneID'', ''ZoneID'',
     ''ZoneId'']"

definition ZONENM_KEYS :: "string list" where
  "ZONENM_KEYS = [''load_zone_name'', ''Zone'', ''LocName'', ''Location'', ''LoadZoneName'']"

definition VALUE_KEYS :: "string list" where
  "VALUE_KEYS = [''estimated_load_mw'', ''LoadMw'', ''LoadMW'', ''Load'', ''Value'',
     ''estimated_zonal_load_mw'']"

definition first_key :: "dict \<Rightarrow> string list \<Rightarrow> json option" where
  "first_key d keys = first_where not_blank d keys"

definition clean_zone_name :: "'f pylib \<Rightarrow> json \<Rightarrow> string" where
  "clean_zone_name L z =
     (let s = strip L (py_str L z) in if startswith s ''.Z.'' then drop 3 s else s)"

definition ZONE_NAME_BY_ID_items :: "(string \<times> string) list" where
  "ZONE_NAME_BY_ID_items =
     [(''4001'', ''ME''), (''4002'', ''NH''), (''4003'', ''VT''), (''4004'', ''CT''),
      (''4005'', ''RI''), (''4006'', ''SEMA''), (''4007'', ''WCMA''), (''4008'', ''NEMA/Boston''),
      (''4000'', ''HUB'')]"

definition ZONE_NAME_BY_ID :: "string \<Rightarrow> string option" where
  "ZONE_NAME_BY_ID = map_of ZONE_NAME_BY_ID_items"

text \<open>
  \<open>{v.upper(): k for k, v in ZONE_NAME_BY_ID.items()}\<close>: a later item overwrites an
  earlier one with the same upper-cased name.
\<close>

definition REV_BY_NAME :: "'f pylib \<Rightarrow> string \<Rightarrow> string option" where
  "REV_BY_NAME L = map_of (rev (map (\<lambda>(k, v). (upper L v, k)) ZONE_NAME_BY_ID_items))"

text \<open>
  Zone id to string: a number (a \<open>bool\<close> is an \<open>int\<close>) gives \<open>str(int(zid))\<close>, where \<open>int\<close>
  raises for a float that is not finite; a string gives its stripped text when that is
  all digits; anything else gives \<open>None\<close>.
\<close>

fun zone_id_str :: "'f pylib \<Rightarrow> json option \<Rightarrow> error + string option" where
  "zone_id_str L (Some (JInt n)) = Inr (Some (str_int n))"
| "zone_id_str L (Some (JBool b)) = Inr (Some (str_int (if b then 1 else 0)))"
| "zone_id_str L (Some (JFloat x)) =
     (case int_of_float x of Inl e \<Rightarrow> Inl e | Inr n \<Rightarrow> Inr (Some (str_int n)))"
| "zone_id_str L (Some (JStr s)) =
     Inr (if strip L s \<noteq> []
          then (if isdigit L (strip L s) then Some (strip L s) else None)
          else None)"
| "zone_id_str L _ = Inr None"

text \<open>
  What \<open>walk\<close> does at a dict node that passes its guard: the row it appends, or the
  exception raised on the way (by \<open>pd.to_datetime\<close>, then by \<open>int\<close>, then by \<open>float\<close>).
\<close>

definition zone_record ::
  "'f pylib \<Rightarrow> json \<Rightarrow> json \<Rightarrow> json option \<Rightarrow> json option \<Rightarrow> error + 'f zonal_row" where
  "zone_record L t val zid znm =
     (case to_datetime L t of
        Inl e \<Rightarrow> Inl e
      | Inr tsl \<Rightarrow>
          (case zone_id_str L zid of
             Inl e \<Rightarrow> Inl e
           | Inr zid_s \<Rightarrow>
               (let tsu = derive_utc tsl;
                    znm_s = map_option (clean_zone_name L) znm;
                    zid_s = (case (zid_s, znm_s) of
                               (None, Some n) \<Rightarrow> REV_BY_NAME L (upper L n)
                             | _ \<Rightarrow> zid_s);
                    znm_s = (case (znm_s, zid_s) of
                               (None, Some i) \<Rightarrow> ZONE_NAME_BY_ID i
                             | _ \<Rightarrow> znm_s)
                in (case float_or_none L val of
                      Inl e \<Rightarrow> Inl e
                    | Inr load_f \<Rightarrow>
                        Inr \<lparr>z_ts_utc = tsu, z_ts_local = tsl, zone_id = zid_s,
                             zone_name = znm_s, z_load_mw = load_f\<rparr>))))"

definition zoneload_node_row :: "'f pylib \<Rightarrow> dict \<Rightarrow> (error + 'f zonal_row) list" where
  "zoneload_node_row L obj =
     (let t = first_key obj TIME_KEYS;
          val = first_key obj VALUE_KEYS;
          zid = first_key obj ZONEID_KEYS;
          znm = first_key obj ZONENM_KEYS
      in if t \<noteq> None \<and> val \<noteq> None \<and> (zid \<noteq> None \<or> znm \<noteq> None)
         then [zone_record L (the t) (the val) zid znm]
         else [])"

fun zoneload_walk :: "'f pylib \<Rightarrow> json \<Rightarrow> (error + 'f zonal_row) list" where
  "zoneload_walk L (JDict obj) =
     zoneload_node_row L obj @ concat (map (zoneload_walk L) (map snd obj))"
| "zoneload_walk L (JList its) = concat (map (zoneload_walk L) its)"
| "zoneload_walk L _ = []"

text \<open>\<open>df["zone_name"].fillna(df["zone_id"])\<close>, row by row.\<close>

definition fillna_zone_name :: "'f zonal_row \<Rightarrow> 'f zonal_row" where
  "fillna_zone_name r =
     (case zone_name r of None \<Rightarrow> r\<lparr>zone_name := zone_id r\<rparr> | Some n \<Rightarrow> r)"

text \<open>A string column in ascending order, missing values last.\<close>

definition opt_key :: "string option \<Rightarrow> bool \<times> string" where
  "opt_key x = (case x of None \<Rightarrow> (True, []) | Some s \<Rightarrow> (False, s))"

definition zoneload_debug_path :: string where
  "zoneload_debug_path = ''data/raw/unexpected_shape_zonal.json''"

text \<open>
  \<open>normalize_payload\<close>: the tidy frame sorted by \<open>(ts_utc, zone_id, zone_name)\<close>; or
  \<open>ValueError\<close> after the payload has been dumped to the debug file, when no row was
  extracted; or the exception a library call raised.
\<close>

definition zoneload_normalize_payload ::
  "'f pylib \<Rightarrow> json \<Rightarrow> debug_files \<Rightarrow> (error + 'f zonal_row list) \<times> debug_files" where
  "zoneload_normalize_payload L payload files =
     (case raise_first (zoneload_walk L payload) of
        Inl e \<Rightarrow> (Inl e, files)
      | Inr rows \<Rightarrow>
          if rows = [] then (Inl ValueError, files(zoneload_debug_path \<mapsto> payload))
          else (Inr (sort_key (\<lambda>r. (ts_key (z_ts_utc r), opt_key (zone_id r), opt_key (zone_name r)))
                       (map fillna_zone_name rows)), files))"

text \<open>The dict nodes of a payload, in the order \<open>walk\<close> visits them.\<close>

fun dict_nodes :: "json \<Rightarrow> dict list" where
  "dict_nodes (JDict obj) = obj # concat (map dict_nodes (map snd obj))"
| "dict_nodes (JList its) = concat (map dict_nodes its)"
| "dict_nodes _ = []"

text \<open>
  The UTC rule in the words of the specification: a timestamp with explicit timezone
  information is converted to UTC, a naive one keeps its wall-clock reading and gets UTC
  attached, with no offset arithmetic. (\<open>NaT\<close> stays \<open>NaT\<close>.)
\<close>

fun spec_utc :: "pd_ts \<Rightarrow> pd_ts" where
  "spec_utc (Timestamp w (Some off)) = Timestamp (w - off) (Some 0)"
| "spec_utc (Timestamp w None) = Timestamp w (Some 0)"
| "spec_utc NaT = NaT"

section \<open>History store (poll\_isone\_to\_history.py)\<close>

text \<open>
  A cell of an identity column of a frame: missing (\<open>None\<close> or \<open>NaN\<close>), a string, or
  the integer or float that \<open>read_csv\<close> infers for a column of numbers.
\<close>

datatype cell = CNull | CStr string | CInt int | CFloat rat

text \<open>
  The rows of the frames the store handles: those a normalizer returned, and those read
  back from a history file.
\<close>

record 'f system_cells =
  sc_ts_utc :: pd_ts
  sc_ts_local :: pd_ts
  sc_location :: cell
  sc_load_mw :: "'f option"
  sc_is_system :: bool

record 'f zonal_cells =
  zc_ts_utc :: pd_ts
  zc_ts_local :: pd_ts
  zc_zone_id :: cell
  zc_zone_name :: cell
  zc_load_mw :: "'f option"

definition opt_cell :: "string option \<Rightarrow> cell" where
  "opt_cell x = (case x of None \<Rightarrow> CNull | Some s \<Rightarrow> CStr s)"

text \<open>The frame a normalizer returned, as the store receives it.\<close>

definition system_frame :: "'f system_row list \<Rightarrow> 'f system_cells list" where
  "system_frame rows =
     map (\<lambda>r. \<lparr>sc_ts_utc = ts_utc r, sc_ts_local = ts_local r, sc_location = CStr (location r),
               sc_load_mw = load_mw r, sc_is_system = is_system r\<rparr>) rows"

definition zonal_frame :: "'f zonal_row list \<Rightarrow> 'f zonal_cells list" where
  "zonal_frame rows =
     map (\<lambda>r. \<lparr>zc_ts_utc = z_ts_utc r, zc_ts_local = z_ts_local r,
               zc_zone_id = opt_cell (zone_id r), zc_zone_name = opt_cell (zone_name r),
               zc_load_mw = z_load_mw r\<rparr>) rows"

text \<open>
  A history file \<open>data/history/<prefix><date>.csv\<close> is named by its prefix and its day.
  The store maps a path to the frame that \<open>to_csv\<close> wrote there.
\<close>

type_synonym path = "string \<times> int option"

type_synonym 'r store = "path \<Rightarrow> 'r list option"

text \<open>
  The pandas calls of the store are parameters of the model, each returning a frame or
  the exception it raises. \<open>read_csv written\<close> is what the \<open>try: pd.read_csv(path,
  parse_dates=...)\<close> with its \<open>except: pd.read_csv(path)\<close> returns for the file that \<open>to_csv\<close>
  wrote from the frame \<open>written\<close>: the column types are inferred again from the text, so
  the rows read need not be the rows written. \<open>sort_values df\<close> is
  \<open>df.sort_values("ts_utc")\<close> with the default algorithm, which promises nothing about the
  order of rows with equal \<open>ts_utc\<close>.
\<close>

record 'r pandas =
  read_csv :: "'r list \<Rightarrow> error + 'r list"
  sort_values :: "'r list \<Rightarrow> error + 'r list"


text \<open>\<open>_utc_dates_in_df\<close>: the days present in the frame (a Python set, here without repeats).\<close>

definition utc_dates_in_df :: "('r \<Rightarrow> pd_ts) \<Rightarrow> 'r list \<Rightarrow> int option list" where
  "utc_dates_in_df ts_col df = remdups (map (\<lambda>r. utc_date (ts_col r)) df)"

text \<open>
  \<open>DataFrame.drop_duplicates(subset=key_cols)\<close> with its default \<open>keep="first"\<close>: a row
  is dropped when a row before it has the same key.
\<close>

fun drop_duplicates_seen :: "('r \<Rightarrow> 'k) \<Rightarrow> 'k list \<Rightarrow> 'r list \<Rightarrow> 'r list" where
  "drop_duplicates_seen key_cols seen [] = []"
| "drop_duplicates_seen key_cols seen (r # rs) =
     (if key_cols r \<in> set seen then drop_duplicates_seen key_cols seen rs
      else r # drop_duplicates_seen key_cols (key_cols r # seen) rs)"

definition drop_duplicates :: "('r \<Rightarrow> 'k) \<Rightarrow> 'r list \<Rightarrow> 'r list" where
  "drop_duplicates key_cols df = drop_duplicates_seen key_cols [] df"

text \<open>Reading a partition: the file read back if \<open>path.exists()\<close>, else an empty frame.\<close>

definition read_partition :: "'r pandas \<Rightarrow> 'r store \<Rightarrow> path \<Rightarrow> error + 'r list" where
  "read_partition P fs path =
     (case fs path of Some written \<Rightarrow> read_csv P written | None \<Rightarrow> Inr [])"

text \<open>
  \<open>_append_idempotent(df_new, path, key_cols)\<close>: returns the number of rows added and
  the store with the file at \<open>path\<close> replaced, or the exception raised before the file was
  touched.
\<close>

definition append_idempotent ::
  "'r pandas \<Rightarrow> 'r list \<Rightarrow> path \<Rightarrow> ('r \<Rightarrow> 'k) \<Rightarrow> 'r store \<Rightarrow> error + int \<times> 'r store" where
  "append_idempotent P df_new path key_cols fs =
     (case read_partition P fs path of
        Inl e \<Rightarrow> Inl e
      | Inr df_old \<Rightarrow>
          (case sort_values P (drop_duplicates key_cols (df_old @ df_new)) of
             Inl e \<Rightarrow> Inl e
           | Inr df_all \<Rightarrow>
               Inr (int (length df_all) - int (length df_old), fs(path \<mapsto> df_all))))"

text \<open>
  Two cells are the same key for \<open>drop_duplicates\<close> when they are equal as Python
  objects: a float with an integral value equals that integer, and missing equals
  missing.
\<close>

definition cell_key :: "cell \<Rightarrow> cell" where
  "cell_key c =
     (case c of CFloat q \<Rightarrow> if of_int \<lfloor>q\<rfloor> = q then CInt \<lfloor>q\<rfloor> else CFloat q | _ \<Rightarrow> c)"

definition system_key :: "'f system_cells \<Rightarrow> int option \<times> cell" where
  "system_key r = (utc_value (sc_ts_utc r), cell_key (sc_location r))"

definition zonal_key :: "'f zonal_cells \<Rightarrow> int option \<times> cell" where
  "zonal_key r = (utc_value (zc_ts_utc r), cell_key (zc_zone_id r))"

text \<open>
  The body of the loop shared by \<open>write_history_system\<close> and \<open>write_history_zonal\<close>: one
  append for one day of the frame, the summary \<open>out\<close> collecting the rows added per day.
  After an exception the loop does nothing more; the files written before it stay.
\<close>

definition write_history_day ::
  "'r pandas \<Rightarrow> string \<Rightarrow> ('r \<Rightarrow> pd_ts) \<Rightarrow> ('r \<Rightarrow> 'k) \<Rightarrow> 'r list \<Rightarrow> int option \<Rightarrow>
   (error + (int option \<Rightarrow> int option)) \<times> 'r store \<Rightarrow>
   (error + (int option \<Rightarrow> int option)) \<times> 'r store" where
  "write_history_day P prefix ts_col key_cols df date_str acc =
     (case fst acc of
        Inl e \<Rightarrow> acc
      | Inr out \<Rightarrow>
          (let df_day = filter (\<lambda>r. utc_date (ts_col r) = date_str) df;
               path = (prefix, date_str)
           in case append_idempotent P df_day path key_cols (snd acc) of
                Inl e \<Rightarrow> (Inl e, snd acc)
              | Inr (added, fs') \<Rightarrow> (Inr (out(date_str \<mapsto> added)), fs')))"

definition write_history_system ::
  "'f system_cells pandas \<Rightarrow> 'f system_cells list \<Rightarrow> 'f system_cells store \<Rightarrow>
   (error + (int option \<Rightarrow> int option)) \<times> 'f system_cells store" where
  "write_history_system P df_sys fs =
     fold (write_history_day P ''system_load_'' sc_ts_utc system_key df_sys)
       (utc_dates_in_df sc_ts_utc df_sys) (Inr Map.empty, fs)"

definition write_history_zonal ::
  "'f zonal_cells pandas \<Rightarrow> 'f zonal_cells list \<Rightarrow> 'f zonal_cells store \<Rightarrow>
   (error + (int option \<Rightarrow> int option)) \<times> 'f zonal_cells store" where
  "write_history_zonal P df_zone fs =
     fold (write_history_day P ''zonal_load_'' zc_ts_utc zonal_key df_zone)
       (utc_dates_in_df zc_ts_utc df_zone) (Inr Map.empty, fs)"

section \<open>Example library, payloads and frames\<close>

text \<open>
  A library for running the normalizers on the example payloads. It agrees with the
  Python functions on the values the examples pass to it and is not meant beyond them.
  For \<open>pd.to_datetime\<close> these are two ISO-8601 timestamps (one with the offset \<open>-05:00\<close>,
  one naive) and a dict, for which it raises. For \<open>float\<close> they are integers of
  magnitude at most \<open>2 ** 53\<close>, which a float holds exactly, and integers of magnitude
  \<open>2 ** 1024\<close> or more, for which \<open>float\<close> raises \<open>OverflowError\<close>. No example reaches
  \<open>py_repr\<close> or a string method on a string that is not ASCII.
\<close>

definition ex_to_datetime :: "json \<Rightarrow> error + pd_ts" where
  "ex_to_datetime v =
     (if v = JStr ''2024-01-01T00:05:00.000-05:00''
        then Inr (Timestamp 1704067500000000000 (Some (- 18000000000000)))
      else if v = JStr ''2024-01-01T00:05:00'' then Inr (Timestamp 1704067500000000000 None)
      else case v of JDict d \<Rightarrow> Inl ValueError | _ \<Rightarrow> Inr NaT)"

definition ex_py_float :: "json \<Rightarrow> error + rat" where
  "ex_py_float v =
     (case v of
        JInt n \<Rightarrow> if \<bar>n\<bar> < 2 ^ 1024 then Inr (of_int n) else Inl OverflowError
      | JFloat (Finite q) \<Rightarrow> Inr q
      | JBool b \<Rightarrow> Inr (if b then 1 else 0)
      | JStr s \<Rightarrow> Inl ValueError
      | _ \<Rightarrow> Inl TypeError)"

definition ex_lib :: "rat pylib" where
  "ex_lib = \<lparr>to_datetime = ex_to_datetime, py_float = ex_py_float, py_repr = (\<lambda>v. ''?''),
     uni_strip = (\<lambda>s. s), uni_upper = (\<lambda>s. s), uni_isdigit = (\<lambda>s. False)\<rparr>"

definition ex_system_entry :: json where
  "ex_system_entry =
     JDict [(''BeginDate'', JStr ''2024-01-01T00:05:00.000-05:00''), (''LoadMw'', JInt 3000),
            (''Location'', JStr ''CT'')]"

definition ex_system_payload :: json where
  "ex_system_payload = JDict [(''FiveMinSystemLoad'', JList [ex_system_entry])]"

definition ex_plain_entries :: "json list" where
  "ex_plain_entries =
     [JDict [(''BeginDate'', JStr ''2024-01-01T00:05:00''), (''LoadMw'', JInt 15000)], JNull]"

definition ex_system_plain :: json where
  "ex_system_plain = JDict [(''FiveMinSystemLoad'', JList ex_plain_entries)]"

definition ex_system_nested :: json where
  "ex_system_nested =
     JDict [(''FiveMinSystemLoad'',
             JList [JDict [(''BeginDate'', JStr ''2024-01-01T00:05:00''), (''LoadMw'', JInt 15000),
                           (''Native'', JDict [(''BeginDate'', JStr ''2024-01-01T00:05:00''),
                                               (''Load'', JInt 14000)])]])]"

definition ex_system_huge :: json where
  "ex_system_huge =
     JDict [(''FiveMinSystemLoad'',
             JList [JDict [(''BeginDate'', JStr ''2024-01-01T00:05:00''),
                           (''LoadMw'', JInt (10 ^ 400))]])]"

definition ex_id_only_obj :: dict where
  "ex_id_only_obj =
     [(''interval_begin_date'', JStr ''2024-01-01T00:05:00.000-05:00''),
      (''load_zone_id'', JStr ''4004''), (''estimated_load_mw'', JInt 3000)]"

definition ex_name_only_obj :: dict where
  "ex_name_only_obj =
     [(''interval_begin_date'', JStr ''2024-01-01T00:05:00''),
      (''load_zone_name'', JStr ''SEMA''), (''estimated_load_mw'', JInt 1500)]"

definition ex_zonal_id_only :: json where
  "ex_zonal_id_only = JDict ex_id_only_obj"

definition ex_zonal_name_only :: json where
  "ex_zonal_name_only = JDict ex_name_only_obj"

definition ex_zonal_payload :: json where
  "ex_zonal_payload =
     JDict [(''FiveMinuteEstimatedZonalLoads'', JList [ex_zonal_id_only, ex_zonal_name_only])]"

definition ex_zonal_no_identity :: json where
  "ex_zonal_no_identity =
     JDict [(''interval_begin_date'', JStr ''2024-01-01T00:05:00''),
            (''LoadZone'', JDict [(''@LocId'', JStr ''4004''), (''$'', JStr ''.Z.CONNECTICUT'')]),
            (''estimated_load_mw'', JInt 3000)]"

definition ex_zonal_blank_name :: json where
  "ex_zonal_blank_name =
     JDict [(''interval_begin_date'', JStr ''2024-01-01T00:05:00''),
            (''load_zone_id'', JStr ''4004''), (''load_zone_name'', JStr ''   ''),
            (''estimated_load_mw'', JInt 3000)]"

definition ex_garbage :: json where
  "ex_garbage = JDict [(''status'', JStr ''ok''), (''items'', JList [JInt 1, JNull])]"

text \<open>The rows the example payloads produce.\<close>

definition ex_system_row_isone :: "rat system_row" where
  "ex_system_row_isone =
     \<lparr>ts_utc = Timestamp 1704085500000000000 (Some 0),
      ts_local = Timestamp 1704067500000000000 (Some (- 18000000000000)),
      location = ''ISONE'', load_mw = Some 3000, is_system = True\<rparr>"

definition ex_system_row_ct :: "rat system_row" where
  "ex_system_row_ct = ex_system_row_isone\<lparr>location := ''CT'', is_system := False\<rparr>"

definition ex_zonal_row_ct :: "rat zonal_row" where
  "ex_zonal_row_ct =
     \<lparr>z_ts_utc = Timestamp 1704085500000000000 (Some 0),
      z_ts_local = Timestamp 1704067500000000000 (Some (- 18000000000000)),
      zone_id = Some ''4004'', zone_name = Some ''CT'', z_load_mw = Some 3000\<rparr>"

definition ex_zonal_row_sema :: "rat zonal_row" where
  "ex_zonal_row_sema =
     \<lparr>z_ts_utc = Timestamp 1704067500000000000 (Some 0),
      z_ts_local = Timestamp 1704067500000000000 None,
      zone_id = Some ''4006'', zone_name = Some ''SEMA'', z_load_mw = Some 1500\<rparr>"

definition ex_zonal_row_null :: "rat zonal_row" where
  "ex_zonal_row_null =
     \<lparr>z_ts_utc = Timestamp 1704067500000000000 (Some 0),
      z_ts_local = Timestamp 1704067500000000000 None,
      zone_id = None, zone_name = None, z_load_mw = Some 3000\<rparr>"

definition ex_zonal_row_blank :: "rat zonal_row" where
  "ex_zonal_row_blank =
     \<lparr>z_ts_utc = Timestamp 1704067500000000000 (Some 0),
      z_ts_local = Timestamp 1704067500000000000 None,
      zone_id = Some ''4004'', zone_name = Some [], z_load_mw = Some 3000\<rparr>"

subsection \<open>Frames and the pandas calls on them\<close>

text \<open>
  An excerpt of the type inference of \<open>read_csv\<close> for one identity column. A column in
  which every cell is written as a run of digits is read as integers, so the string
  \<open>4004\<close> comes back as the integer 4004. Any other column is read as text. This agrees
  with pandas on the columns of the example frames (runs of digits, and names that are
  neither numbers nor markers of a missing value).
\<close>

definition digit_val :: "char \<Rightarrow> nat" where
  "digit_val c = (case map_of (zip ''0123456789'' [0, 1, 2, 3, 4, 5, 6, 7, 8, 9]) c of Some d \<Rightarrow> d | None \<Rightarrow> 0)"

definition nat_of_digits :: "string \<Rightarrow> nat" where
  "nat_of_digits s = foldl (\<lambda>n c. 10 * n + digit_val c) 0 s"

definition int_text :: "cell \<Rightarrow> bool" where
  "int_text c = (case c of CInt n \<Rightarrow> 0 \<le> n | CStr s \<Rightarrow> ascii_isdigit s | _ \<Rightarrow> False)"

definition as_int :: "cell \<Rightarrow> cell" where
  "as_int c = (case c of CStr s \<Rightarrow> CInt (int (nat_of_digits s)) | _ \<Rightarrow> c)"

definition as_text :: "cell \<Rightarrow> cell" where
  "as_text c = (case c of CInt n \<Rightarrow> CStr (str_int n) | _ \<Rightarrow> c)"

definition infer_column :: "cell list \<Rightarrow> cell list" where
  "infer_column cs = (if list_all int_text cs then map as_int cs else map as_text cs)"

text \<open>
  The file of a frame read back: the identity columns are inferred again, the other
  columns come back as written. The sort is an insertion sort, which is what the
  library runs on a frame as short as the examples.
\<close>

definition ex_read_system :: "rat system_cells list \<Rightarrow> error + rat system_cells list" where
  "ex_read_system written =
     Inr (map (\<lambda>(r, loc). r\<lparr>sc_location := loc\<rparr>)
            (zip written (infer_column (map sc_location written))))"

definition ex_read_zonal :: "rat zonal_cells list \<Rightarrow> error + rat zonal_cells list" where
  "ex_read_zonal written =
     Inr (map (\<lambda>(r, zid, znm). r\<lparr>zc_zone_id := zid, zc_zone_name := znm\<rparr>)
            (zip written (zip (infer_column (map zc_zone_id written))
                              (infer_column (map zc_zone_name written)))))"

definition ex_pandas_system :: "rat system_cells pandas" where
  "ex_pandas_system =
     \<lparr>read_csv = ex_read_system,
      sort_values = (\<lambda>df. Inr (sort_key (\<lambda>r. ts_key (sc_ts_utc r)) df))\<rparr>"

definition ex_pandas_zonal :: "rat zonal_cells pandas" where
  "ex_pandas_zonal =
     \<lparr>read_csv = ex_read_zonal,
      sort_values = (\<lambda>df. Inr (sort_key (\<lambda>r. ts_key (zc_ts_utc r)) df))\<rparr>"

definition ex_path_system :: path where
  "ex_path_system = (''system_load_'', Some 19723)"

definition ex_path_zonal :: path where
  "ex_path_zonal = (''zonal_load_'', Some 19723)"

text \<open>System rows of 2024-01-01 (UTC): 00:05 with two different loads, and 00:00.\<close>

definition srow_a :: "rat system_cells" where
  "srow_a = \<lparr>sc_ts_utc = Timestamp 1704067500000000000 (Some 0),
     sc_ts_local = Timestamp 1704067500000000000 None, sc_location = CStr ''ISONE'',
     sc_load_mw = Some 15000, sc_is_system = True\<rparr>"

definition srow_a' :: "rat system_cells" where
  "srow_a' = srow_a\<lparr>sc_load_mw := Some 14000\<rparr>"

definition srow_c :: "rat system_cells" where
  "srow_c = \<lparr>sc_ts_utc = Timestamp 1704067200000000000 (Some 0),
     sc_ts_local = Timestamp 1704067200000000000 None, sc_location = CStr ''ISONE'',
     sc_load_mw = Some 14900, sc_is_system = True\<rparr>"

text \<open>
  Zonal rows of 2024-01-01 00:05 (UTC) as the normalizer returns them, and as they come
  back from the file.
\<close>

definition zrow_a :: "rat zonal_cells" where
  "zrow_a = \<lparr>zc_ts_utc = Timestamp 1704067500000000000 (Some 0),
     zc_ts_local = Timestamp 1704067500000000000 None, zc_zone_id = CStr ''4004'',
     zc_zone_name = CStr ''CT'', zc_load_mw = Some 3000\<rparr>"

definition zrow_b :: "rat zonal_cells" where
  "zrow_b = \<lparr>zc_ts_utc = Timestamp 1704067500000000000 (Some 0),
     zc_ts_local = Timestamp 1704067500000000000 None, zc_zone_id = CStr ''4006'',
     zc_zone_name = CStr ''SEMA'', zc_load_mw = Some 1500\<rparr>"

definition zrow_a_read :: "rat zonal_cells" where
  "zrow_a_read = zrow_a\<lparr>zc_zone_id := CInt 4004\<rparr>"

definition zrow_b_read :: "rat zonal_cells" where
  "zrow_b_read = zrow_b\<lparr>zc_zone_id := CInt 4006\<rparr>"
section \<open>Properties of the history store\<close>

subsection \<open>Dropping duplicates\<close>

lemma dds_keys: "set (map k (drop_duplicates_seen k seen xs)) = set (map k xs) - set seen"
  by (induction xs arbitrary: seen) auto

lemma dds_distinct: "distinct (map k (drop_duplicates_seen k seen xs))"
proof (induction xs arbitrary: seen)
  case Nil
  then show ?case by simp
next
  case (Cons x xs)
  have "k x \<notin> set (map k (drop_duplicates_seen k (k x # seen) xs))"
    unfolding dds_keys by simp
  then show ?case using Cons.IH by simp
qed

lemma dds_seen_cong: "set s1 = set s2 \<Longrightarrow> drop_duplicates_seen k s1 xs = drop_duplicates_seen k s2 xs"
proof (induction xs arbitrary: s1 s2)
  case Nil
  then show ?case by simp
next
  case (Cons x xs)
  have "set (k x # s1) = set (k x # s2)" using Cons.prems by simp
  then have "drop_duplicates_seen k (k x # s1) xs = drop_duplicates_seen k (k x # s2) xs"
    by (rule Cons.IH)
  moreover have "drop_duplicates_seen k s1 xs = drop_duplicates_seen k s2 xs"
    using Cons.prems by (rule Cons.IH)
  ultimately show ?case using Cons.prems by simp
qed

lemma dds_append:
  "drop_duplicates_seen k seen (xs @ ys) =
   drop_duplicates_seen k seen xs @ drop_duplicates_seen k (map k xs @ seen) ys"
proof (induction xs arbitrary: seen)
  case Nil
  then show ?case by simp
next
  case (Cons x xs)
  show ?case
  proof (cases "k x \<in> set seen")
    case True
    then have "set (map k xs @ seen) = set (map k (x # xs) @ seen)" by auto
    then show ?thesis using True Cons.IH [of seen] dds_seen_cong by fastforce
  next
    case False
    have "set (map k xs @ k x # seen) = set (map k (x # xs) @ seen)" by auto
    then show ?thesis using False Cons.IH [of "k x # seen"] dds_seen_cong by fastforce
  qed
qed

lemma dds_id: "distinct (map k xs) \<Longrightarrow> set (map k xs) \<inter> set seen = {} \<Longrightarrow> drop_duplicates_seen k seen xs = xs"
  by (induction xs arbitrary: seen) auto

lemma dds_all_seen: "set (map k ys) \<subseteq> set seen \<Longrightarrow> drop_duplicates_seen k seen ys = []"
  by (induction ys arbitrary: seen) auto


lemma drop_duplicates_distinct: "distinct (map k (drop_duplicates k xs))"
  by (simp add: drop_duplicates_def dds_distinct)

lemma drop_duplicates_keys: "set (map k (drop_duplicates k xs)) = set (map k xs)"
  using dds_keys [of k "[]" xs] by (simp add: drop_duplicates_def)


lemma drop_duplicates_absorb:
  assumes "distinct (map k xs)" and "set (map k ys) \<subseteq> set (map k xs)"
  shows "drop_duplicates k (xs @ ys) = xs"
proof -
  have "drop_duplicates_seen k (map k xs @ []) ys = []"
    using assms(2) by (intro dds_all_seen) simp
  moreover have "drop_duplicates_seen k [] xs = xs"
    using assms(1) by (simp add: dds_id)
  ultimately show ?thesis
    by (simp add: drop_duplicates_def dds_append [of k "[]" xs ys])
qed



subsection \<open>What any admissible sort preserves\<close>





subsection \<open>One append\<close>


subsection \<open>Evaluating the examples\<close>

lemmas hist_eval = write_history_system_def write_history_zonal_def utc_dates_in_df_def
  write_history_day_def append_idempotent_def read_partition_def drop_duplicates_def
  system_key_def zonal_key_def cell_key_def ts_key_def utc_date_def ns_per_day_def Let_def

lemmas frame_eval = ex_pandas_system_def ex_pandas_zonal_def ex_read_system_def ex_read_zonal_def
  infer_column_def int_text_def as_int_def as_text_def nat_of_digits_def digit_val_def
  ascii_isdigit_def ex_path_system_def ex_path_zonal_def

lemmas row_eval = srow_a_def srow_a'_def srow_c_def zrow_a_def zrow_b_def zrow_a_read_def
  zrow_b_read_def



subsection \<open>Appending the same batch twice\<close>

text \<open>
  Claim C1: appending the same batch twice leaves the partition as it was after the
  first call, and the second call reports 0 rows added for every date. This fails for
  the zonal store. The batch holds the rows of zones \<open>4004\<close> and \<open>4006\<close> at 00:05 on
  2024-01-01 and the partition is absent. The first \<open>write_history_zonal\<close> writes both
  rows and reports 2 for that day. The second call reads the file back: the column
  \<open>zone_id\<close>, written as the digits \<open>4004\<close> and \<open>4006\<close>, comes back as integers, which
  equal none of the strings of the batch, so \<open>drop_duplicates\<close> drops nothing. The
  partition then holds four rows and the call reports 2 again.
\<close>

theorem second_zonal_append_adds_rows:
  "write_history_zonal ex_pandas_zonal [zrow_a, zrow_b] Map.empty =
     (Inr [Some 19723 \<mapsto> 2], [ex_path_zonal \<mapsto> [zrow_a, zrow_b]]) \<and>
   read_partition ex_pandas_zonal [ex_path_zonal \<mapsto> [zrow_a, zrow_b]] ex_path_zonal =
     Inr [zrow_a_read, zrow_b_read] \<and>
   write_history_zonal ex_pandas_zonal [zrow_a, zrow_b] [ex_path_zonal \<mapsto> [zrow_a, zrow_b]] =
     (Inr [Some 19723 \<mapsto> 2],
      [ex_path_zonal \<mapsto> [zrow_a_read, zrow_b_read, zrow_a, zrow_b]])"
  by (simp add: hist_eval frame_eval row_eval)

subsection \<open>Which row survives a key collision\<close>




subsection \<open>Merge completeness\<close>




subsection \<open>The partition invariant\<close>

text \<open>
  Claim C4: after any sequence of appends starting from an absent partition, no two
  stored rows share the identity key. This fails for the zonal store. Appending the row
  of zone \<open>4006\<close>, and then the rows of zones \<open>4004\<close> and \<open>4006\<close> at the same \<open>ts_utc\<close>,
  stores the row of zone \<open>4006\<close> twice: the second append reads the stored \<open>zone_id\<close>
  back as the integer 4006, which does not equal the string \<open>4006\<close> of the batch, and
  reports 2 rows added. Read back, the partition has three rows, two of them with the
  same \<open>(ts_utc, zone_id)\<close>.
\<close>

theorem zonal_partition_repeats_key:
  "append_idempotent ex_pandas_zonal [zrow_b] ex_path_zonal zonal_key Map.empty =
     Inr (1, [ex_path_zonal \<mapsto> [zrow_b]]) \<and>
   append_idempotent ex_pandas_zonal [zrow_a, zrow_b] ex_path_zonal zonal_key
       [ex_path_zonal \<mapsto> [zrow_b]] =
     Inr (2, [ex_path_zonal \<mapsto> [zrow_b_read, zrow_a, zrow_b]]) \<and>
   read_partition ex_pandas_zonal [ex_path_zonal \<mapsto> [zrow_b_read, zrow_a, zrow_b]] ex_path_zonal =
     Inr [zrow_b_read, zrow_a_read, zrow_b_read] \<and>
   \<not> distinct (map zonal_key [zrow_b_read, zrow_a_read, zrow_b_read])"
  by (simp add: hist_eval frame_eval row_eval)
section \<open>Properties of the normalizers\<close>

subsection \<open>Evaluating the examples\<close>

lemmas py_eval = not_blank_def is_ascii_def is_space_def ascii_strip_def ascii_upper_def
  upper_char_def ascii_isdigit_def strip_def upper_def isdigit_def startswith_def str_int_def
  float_or_none_def derive_utc_def Let_def

lemmas sys_eval = SYS_TIME_KEYS_def SYS_VALUE_KEYS_def LOC_KEYS_def LOC_TEXT_KEYS_def extract_time_def
  extract_val_def loc_text_def extract_loc_def fast_record_def fast_row_def fast_path_def
  walk_record_def sysload_node_row_def sysload_rows_def sysload_normalize_payload_def
  sysload_debug_path_def

lemmas zone_eval = TIME_KEYS_def ZONEID_KEYS_def ZONENM_KEYS_def VALUE_KEYS_def first_key_def
  clean_zone_name_def ZONE_NAME_BY_ID_items_def ZONE_NAME_BY_ID_def REV_BY_NAME_def
  zone_record_def zoneload_node_row_def fillna_zone_name_def opt_key_def zoneload_debug_path_def
  zoneload_normalize_payload_def

lemmas ex_eval = ex_to_datetime_def ex_py_float_def ex_lib_def ex_system_entry_def
  ex_system_payload_def ex_plain_entries_def ex_system_plain_def ex_system_nested_def
  ex_system_huge_def ex_id_only_obj_def ex_name_only_obj_def ex_zonal_id_only_def
  ex_zonal_name_only_def ex_zonal_payload_def ex_zonal_no_identity_def ex_zonal_blank_name_def
  ex_garbage_def ex_system_row_isone_def ex_system_row_ct_def ex_zonal_row_ct_def
  ex_zonal_row_sema_def ex_zonal_row_null_def ex_zonal_row_blank_def

subsection \<open>Exceptions\<close>

lemma raise_first_Inr: "raise_first steps = Inr rows \<longleftrightarrow> steps = map Inr rows"
proof (induction steps arbitrary: rows)
  case Nil
  then show ?case by (cases rows) simp_all
next
  case (Cons s steps)
  show ?case
  proof (cases s)
    case (Inl e)
    then show ?thesis by (cases rows) simp_all
  next
    case x: (Inr x)
    show ?thesis
    proof (cases "raise_first steps")
      case (Inl e)
      then have "steps \<noteq> map Inr ys" for ys using Cons.IH [of ys] by simp
      then show ?thesis using x Inl by (cases rows) simp_all
    next
      case (Inr xs)
      then have "steps = map Inr xs" using Cons.IH [of xs] by simp
      then show ?thesis using x Inr by (cases rows) (simp_all add: inj_map_eq_map)
    qed
  qed
qed

lemma raise_first_Nil: "raise_first steps = Inr [] \<longleftrightarrow> steps = []"
  by (simp add: raise_first_Inr)

lemma raise_first_set: "raise_first steps = Inr rows \<Longrightarrow> r \<in> set rows \<longleftrightarrow> Inr r \<in> set steps"
  by (auto simp: raise_first_Inr)

subsection \<open>Traversal\<close>

lemma concat_map_concat_map:
  "concat (map f (concat (map g xs))) = concat (map (\<lambda>x. concat (map f (g x))) xs)"
  by (induction xs) auto

lemma zoneload_walk_nodes:
  "zoneload_walk L p = concat (map (zoneload_node_row L) (dict_nodes p))"
proof (induction L p rule: zoneload_walk.induct)
  case (1 L obj)
  have eq: "map (\<lambda>x. zoneload_walk L (snd x)) obj =
        map (\<lambda>x. concat (map (zoneload_node_row L) (dict_nodes (snd x)))) obj"
    by (rule map_cong [OF refl]) (use 1 in auto)
  show ?case by (simp add: concat_map_concat_map o_def eq)
next
  case (2 L its)
  have eq: "map (zoneload_walk L) its = map (\<lambda>x. concat (map (zoneload_node_row L) (dict_nodes x))) its"
    by (rule map_cong [OF refl]) (use 2 in auto)
  show ?case by (simp add: concat_map_concat_map o_def eq)
qed simp_all

lemma sysload_walk_nodes:
  "sysload_walk L p = concat (map (sysload_node_row L) (dict_nodes p))"
proof (induction L p rule: sysload_walk.induct)
  case (1 L obj)
  have eq: "map (\<lambda>x. sysload_walk L (snd x)) obj =
        map (\<lambda>x. concat (map (sysload_node_row L) (dict_nodes (snd x)))) obj"
    by (rule map_cong [OF refl]) (use 1 in auto)
  show ?case by (simp add: concat_map_concat_map o_def eq)
next
  case (2 L its)
  have eq: "map (sysload_walk L) its = map (\<lambda>x. concat (map (sysload_node_row L) (dict_nodes x))) its"
    by (rule map_cong [OF refl]) (use 2 in auto)
  show ?case by (simp add: concat_map_concat_map o_def eq)
qed simp_all

lemma first_where_Some:
  "first_where ok d ks = Some v \<Longrightarrow> \<exists>k\<in>set ks. map_of d k = Some v \<and> ok v"
  by (induction ks) (auto split: option.splits if_splits)

lemma single_key_no_time_and_value:
  assumes "set ks1 \<inter> set ks2 = {}"
  shows "first_where ok1 [(k, P)] ks1 = None \<or> first_where ok2 [(k, P)] ks2 = None"
proof (rule ccontr)
  assume "\<not> ?thesis"
  then obtain v1 v2 where "first_where ok1 [(k, P)] ks1 = Some v1" "first_where ok2 [(k, P)] ks2 = Some v2"
    by auto
  then obtain k1 k2 where "k1 \<in> set ks1" "map_of [(k, P)] k1 = Some v1"
     "k2 \<in> set ks2" "map_of [(k, P)] k2 = Some v2"
    by (meson first_where_Some)
  then have "k1 = k" "k2 = k" by (auto split: if_splits)
  then show False using assms \<open>k1 \<in> set ks1\<close> \<open>k2 \<in> set ks2\<close> by auto
qed

lemma zone_keys_disjoint: "set TIME_KEYS \<inter> set VALUE_KEYS = {}"
  by (simp add: TIME_KEYS_def VALUE_KEYS_def)

lemma sys_keys_disjoint: "set SYS_TIME_KEYS \<inter> set SYS_VALUE_KEYS = {}"
  by (simp add: SYS_TIME_KEYS_def SYS_VALUE_KEYS_def)

lemma zoneload_single_key_row: "zoneload_node_row L [(k, P)] = []"
  using single_key_no_time_and_value [OF zone_keys_disjoint, of not_blank k P not_blank]
  by (auto simp: zoneload_node_row_def first_key_def Let_def)

lemma sysload_single_key_row: "sysload_node_row L [(k, P)] = []"
  using single_key_no_time_and_value [OF sys_keys_disjoint, of truthy k P not_blank]
  by (auto simp: sysload_node_row_def extract_time_def extract_val_def split: option.splits)

subsection \<open>Where rows come from\<close>

lemma map_of_in_values: "map_of d k = Some v \<Longrightarrow> v \<in> set (map snd d)"
  by (induction d) (auto split: if_splits)

lemma dict_nodes_child:
  "v \<in> set (map snd d) \<Longrightarrow> set (dict_nodes v) \<subseteq> set (dict_nodes (JDict d))"
  by auto

lemma dict_nodes_item: "e \<in> set its \<Longrightarrow> set (dict_nodes e) \<subseteq> set (dict_nodes (JList its))"
  by auto

lemma fast_path_entries:
  assumes "s \<in> set (fast_path L p)"
  shows "\<exists>d\<in>set (dict_nodes p). s \<in> set (fast_row L (JDict d))"
proof -
  from assms obtain d0 where p: "p = JDict d0"
    by (cases p) (auto simp: fast_path_def)
  from assms obtain v where m0: "map_of d0 ''FiveMinSystemLoad'' = Some v"
    unfolding p by (cases "map_of d0 ''FiveMinSystemLoad''") (auto simp: fast_path_def)
  from assms obtain rs where v: "v = JList rs"
    unfolding p using m0 by (cases v) (auto simp: fast_path_def)
  have m: "map_of d0 ''FiveMinSystemLoad'' = Some (JList rs)" using m0 v by simp
  have r: "s \<in> set (concat (map (fast_row L) rs))"
    using assms unfolding p by (simp add: fast_path_def m)
  from r obtain e where e: "e \<in> set rs" and re: "s \<in> set (fast_row L e)" by auto
  from re obtain d where d: "e = JDict d" by (cases e) (auto simp: fast_row_def)
  have "d \<in> set (dict_nodes e)" by (simp add: d)
  then have "d \<in> set (dict_nodes (JList rs))" using dict_nodes_item [OF e] by blast
  then have "d \<in> set (dict_nodes p)"
    unfolding p using dict_nodes_child [OF map_of_in_values [OF m]] by blast
  then show ?thesis using re d by blast
qed

lemma fast_record_fields:
  assumes "fast_record L tval lval = Inr r"
  shows "to_datetime L tval = Inr (ts_local r) \<and> ts_utc r = derive_utc (ts_local r) \<and>
         float_or_none L lval = Inr (load_mw r) \<and> location r = ''ISONE'' \<and> is_system r"
  using assms
  by (cases "to_datetime L tval"; cases "float_or_none L lval")
     (auto simp: fast_record_def Let_def)

lemma walk_record_fields:
  assumes "walk_record L obj tval lval = Inr r"
  shows "to_datetime L tval = Inr (ts_local r) \<and> ts_utc r = derive_utc (ts_local r) \<and>
         float_or_none L lval = Inr (load_mw r)"
  using assms
  by (cases "to_datetime L tval"; cases "float_or_none L lval")
     (auto simp: walk_record_def Let_def)

lemma fast_row_fields:
  assumes "Inr r \<in> set (fast_row L (JDict d))"
  shows "\<exists>tval lval. extract_time d = Some tval \<and> extract_val d = Some lval \<and>
           to_datetime L tval = Inr (ts_local r) \<and> ts_utc r = derive_utc (ts_local r) \<and>
           float_or_none L lval = Inr (load_mw r) \<and> location r = ''ISONE'' \<and> is_system r"
proof -
  from assms obtain tval lval where "extract_time d = Some tval" "extract_val d = Some lval"
    "fast_record L tval lval = Inr r"
    by (cases "extract_time d"; cases "extract_val d") (auto simp: fast_row_def)
  then show ?thesis using fast_record_fields by blast
qed

lemma sysload_node_row_fields:
  assumes "Inr r \<in> set (sysload_node_row L d)"
  shows "\<exists>tval lval. extract_time d = Some tval \<and> extract_val d = Some lval \<and>
           to_datetime L tval = Inr (ts_local r) \<and> ts_utc r = derive_utc (ts_local r) \<and>
           float_or_none L lval = Inr (load_mw r)"
proof -
  from assms obtain tval lval where "extract_time d = Some tval" "extract_val d = Some lval"
    "walk_record L d tval lval = Inr r"
    by (cases "extract_time d"; cases "extract_val d") (auto simp: sysload_node_row_def)
  then show ?thesis using walk_record_fields by blast
qed

lemma sysload_rows_cases:
  assumes "sysload_rows L p = Inr rows"
  shows "(raise_first (fast_path L p) = Inr rows \<and> rows \<noteq> []) \<or>
         (fast_path L p = [] \<and> raise_first (sysload_walk L p) = Inr rows)"
  using assms
  by (cases "raise_first (fast_path L p)")
     (auto simp: sysload_rows_def raise_first_Nil split: if_splits)

lemma sysload_rows_origin:
  assumes "sysload_rows L p = Inr rows" and "r \<in> set rows"
  shows "\<exists>d\<in>set (dict_nodes p). \<exists>tval. extract_time d = Some tval \<and>
           to_datetime L tval = Inr (ts_local r) \<and> ts_utc r = derive_utc (ts_local r)"
  using sysload_rows_cases [OF assms(1)]
proof
  assume "raise_first (fast_path L p) = Inr rows \<and> rows \<noteq> []"
  then have "Inr r \<in> set (fast_path L p)" using assms(2) raise_first_set by fast
  then obtain d where "d \<in> set (dict_nodes p)" "Inr r \<in> set (fast_row L (JDict d))"
    using fast_path_entries by blast
  then show ?thesis using fast_row_fields by blast
next
  assume "fast_path L p = [] \<and> raise_first (sysload_walk L p) = Inr rows"
  then have "Inr r \<in> set (sysload_walk L p)" using assms(2) raise_first_set by fast
  then obtain d where "d \<in> set (dict_nodes p)" "Inr r \<in> set (sysload_node_row L d)"
    by (auto simp: sysload_walk_nodes)
  then show ?thesis using sysload_node_row_fields by blast
qed

lemma sort_key_Nil_iff: "sort_key f xs = [] \<longleftrightarrow> xs = []"
  by (metis length_sort length_0_conv)

lemma sysload_normalize_rows:
  assumes "fst (sysload_normalize_payload L p files) = Inr rows"
  shows "\<exists>rows0. sysload_rows L p = Inr rows0 \<and> set rows = set rows0 \<and> rows \<noteq> []"
  using assms
  by (cases "sysload_rows L p")
     (auto simp: sysload_normalize_payload_def sort_key_Nil_iff split: if_splits)

lemma zoneload_normalize_rows:
  assumes "fst (zoneload_normalize_payload L p files) = Inr rows"
  shows "\<exists>rows0. raise_first (zoneload_walk L p) = Inr rows0 \<and>
           set rows = fillna_zone_name ` set rows0 \<and> rows \<noteq> []"
  using assms
  by (cases "raise_first (zoneload_walk L p)")
     (auto simp: zoneload_normalize_payload_def sort_key_Nil_iff split: if_splits)

lemma fillna_fields [simp]:
  "z_ts_utc (fillna_zone_name r) = z_ts_utc r"
  "z_ts_local (fillna_zone_name r) = z_ts_local r"
  "zone_id (fillna_zone_name r) = zone_id r"
  "z_load_mw (fillna_zone_name r) = z_load_mw r"
  "zone_name (fillna_zone_name r) = (case zone_name r of None \<Rightarrow> zone_id r | Some n \<Rightarrow> Some n)"
  by (simp_all add: fillna_zone_name_def split: option.splits)

lemma derive_utc_spec: "derive_utc t = spec_utc t"
  by (cases t rule: spec_utc.cases) (simp_all add: derive_utc_def)

text \<open>The row \<open>walk\<close> appends at a node of the zonal payload, when nothing raises.\<close>

lemma zone_record_Inr:
  assumes "zone_record L t val zid znm = Inr r"
  obtains zs where "to_datetime L t = Inr (z_ts_local r)"
    and "z_ts_utc r = derive_utc (z_ts_local r)"
    and "zone_id_str L zid = Inr zs"
    and "float_or_none L val = Inr (z_load_mw r)"
    and "zone_id r = (case (zs, map_option (clean_zone_name L) znm) of
                        (None, Some n) \<Rightarrow> REV_BY_NAME L (upper L n) | _ \<Rightarrow> zs)"
    and "zone_name r = (case (map_option (clean_zone_name L) znm, zone_id r) of
                          (None, Some i) \<Rightarrow> ZONE_NAME_BY_ID i
                        | _ \<Rightarrow> map_option (clean_zone_name L) znm)"
  using assms
  by (cases "to_datetime L t"; cases "zone_id_str L zid"; cases "float_or_none L val")
     (auto simp: zone_record_def Let_def)

lemma zoneload_node_row_fields:
  assumes "Inr r \<in> set (zoneload_node_row L d)"
  shows "\<exists>t val. first_key d TIME_KEYS = Some t \<and> first_key d VALUE_KEYS = Some val \<and>
           zone_record L t val (first_key d ZONEID_KEYS) (first_key d ZONENM_KEYS) = Inr r"
  using assms by (auto simp: zoneload_node_row_def Let_def split: if_splits)

lemma zoneload_rows_origin:
  assumes "raise_first (zoneload_walk L p) = Inr rows" and "r \<in> set rows"
  shows "\<exists>d\<in>set (dict_nodes p). \<exists>t. first_key d TIME_KEYS = Some t \<and>
           to_datetime L t = Inr (z_ts_local r) \<and> z_ts_utc r = derive_utc (z_ts_local r)"
proof -
  have "Inr r \<in> set (zoneload_walk L p)" using assms raise_first_set by fast
  then obtain d where d: "d \<in> set (dict_nodes p)" and "Inr r \<in> set (zoneload_node_row L d)"
    by (auto simp: zoneload_walk_nodes)
  then obtain t val where t: "first_key d TIME_KEYS = Some t"
    and "zone_record L t val (first_key d ZONEID_KEYS) (first_key d ZONENM_KEYS) = Inr r"
    using zoneload_node_row_fields by blast
  then have "to_datetime L t = Inr (z_ts_local r)" "z_ts_utc r = derive_utc (z_ts_local r)"
    by (auto elim: zone_record_Inr)
  then show ?thesis using d t by blast
qed

text \<open>
  The exception path is live: a load of \<open>10 ** 400\<close> makes \<open>float\<close> raise
  \<open>OverflowError\<close>, which the \<open>except\<close> clause does not catch, and no frame is returned.
\<close>

lemma uncaught_overflow_escapes:
  "sysload_normalize_payload ex_lib ex_system_huge Map.empty = (Inl OverflowError, Map.empty)"
  by (simp add: py_eval sys_eval ex_eval)

subsection \<open>The fast path of the system normalizer\<close>

lemma fast_path_fixed:
  "Inr r \<in> set (fast_path L p) \<Longrightarrow> location r = ''ISONE'' \<and> is_system r"
  using fast_path_entries fast_row_fields by blast

text \<open>
  Claim C10. When the system payload is a dict whose key \<open>FiveMinSystemLoad\<close> holds a
  list, the fast path runs over the entries of that list, and every record it produces
  has \<open>location\<close> fixed to \<open>ISONE\<close> and \<open>is_system\<close> true, whatever \<open>Location\<close> or \<open>Zone\<close>
  field the entries carry; when it runs to its end without an exception and has
  produced a record, these are the records of the frame \<open>normalize_payload\<close> returns.
\<close>

theorem fast_path_location_fixed:
  assumes "map_of d ''FiveMinSystemLoad'' = Some (JList entries)"
  shows "fast_path L (JDict d) = concat (map (fast_row L) entries) \<and>
         (\<forall>r. Inr r \<in> set (fast_path L (JDict d)) \<longrightarrow> location r = ''ISONE'' \<and> is_system r) \<and>
         (\<forall>rows0. raise_first (fast_path L (JDict d)) = Inr rows0 \<and> rows0 \<noteq> [] \<longrightarrow>
            (\<exists>rows. fst (sysload_normalize_payload L (JDict d) files) = Inr rows \<and> rows \<noteq> [] \<and>
               set rows = set rows0 \<and>
               (\<forall>r\<in>set rows. location r = ''ISONE'' \<and> is_system r)))"
proof (intro conjI allI impI)
  show "fast_path L (JDict d) = concat (map (fast_row L) entries)"
    using assms by (simp add: fast_path_def)
  show "location r = ''ISONE''" "is_system r" if "Inr r \<in> set (fast_path L (JDict d))" for r
    using that fast_path_fixed by blast+
  fix rows0
  assume a: "raise_first (fast_path L (JDict d)) = Inr rows0 \<and> rows0 \<noteq> []"
  then have rows: "sysload_rows L (JDict d) = Inr rows0"
    by (simp add: sysload_rows_def)
  let ?rows = "sort_key (\<lambda>r. (ts_key (ts_utc r), location r)) rows0"
  have r: "fst (sysload_normalize_payload L (JDict d) files) = Inr ?rows"
    using a by (simp add: sysload_normalize_payload_def rows)
  have "\<forall>r\<in>set ?rows. location r = ''ISONE'' \<and> is_system r"
    using a fast_path_fixed raise_first_set by fastforce
  then show "\<exists>rows. fst (sysload_normalize_payload L (JDict d) files) = Inr rows \<and> rows \<noteq> [] \<and>
               set rows = set rows0 \<and>
               (\<forall>r\<in>set rows. location r = ''ISONE'' \<and> is_system r)"
    using r a by (intro exI [of _ ?rows]) (simp add: sort_key_Nil_iff)
qed

theorem fast_path_location_fixed_witness:
  "map_of [(''FiveMinSystemLoad'', JList [ex_system_entry])] ''FiveMinSystemLoad'' =
     Some (JList [ex_system_entry]) \<and>
   map_of [(''BeginDate'', JStr ''2024-01-01T00:05:00.000-05:00''), (''LoadMw'', JInt 3000),
           (''Location'', JStr ''CT'')] ''Location'' = Some (JStr ''CT'') \<and>
   fast_path ex_lib ex_system_payload = [Inr ex_system_row_isone] \<and>
   location ex_system_row_isone = ''ISONE'' \<and> is_system ex_system_row_isone \<and>
   fst (sysload_normalize_payload ex_lib ex_system_payload Map.empty) = Inr [ex_system_row_isone]"
proof -
  have m: "map_of [(''FiveMinSystemLoad'', JList [ex_system_entry])] ''FiveMinSystemLoad'' =
      Some (JList [ex_system_entry])"
    by simp
  have l: "map_of [(''BeginDate'', JStr ''2024-01-01T00:05:00.000-05:00''), (''LoadMw'', JInt 3000),
           (''Location'', JStr ''CT'')] ''Location'' = Some (JStr ''CT'')"
    by simp
  have c: "fast_path ex_lib ex_system_payload = [Inr ex_system_row_isone]"
    by (simp add: py_eval sys_eval ex_eval)
  have n: "fst (sysload_normalize_payload ex_lib ex_system_payload Map.empty) = Inr [ex_system_row_isone]"
    by (simp add: py_eval sys_eval ex_eval)
  have "\<forall>r. Inr r \<in> set (fast_path ex_lib ex_system_payload) \<longrightarrow> location r = ''ISONE'' \<and> is_system r"
    unfolding ex_system_payload_def using fast_path_location_fixed [OF m, of ex_lib Map.empty] by blast
  then have f: "location ex_system_row_isone = ''ISONE'' \<and> is_system ex_system_row_isone"
    unfolding c by simp
  show ?thesis using m l c n f by blast
qed

subsection \<open>Zero records extracted\<close>

text \<open>
  Claim C6. For both normalizers: when zero records are extracted from a payload,
  \<open>normalize_payload\<close> raises \<open>ValueError\<close> and the payload itself has been written to
  the debug file; and no payload makes \<open>normalize_payload\<close> return an empty frame.
\<close>

theorem zero_extraction_fails:
  "(sysload_rows L payload = Inr [] \<longrightarrow>
      sysload_normalize_payload L payload files =
        (Inl ValueError, files(sysload_debug_path \<mapsto> payload))) \<and>
   (raise_first (zoneload_walk L payload) = Inr [] \<longrightarrow>
      zoneload_normalize_payload L payload files =
        (Inl ValueError, files(zoneload_debug_path \<mapsto> payload))) \<and>
   fst (sysload_normalize_payload L payload files) \<noteq> Inr [] \<and>
   fst (zoneload_normalize_payload L payload files) \<noteq> Inr []"
proof (intro conjI impI)
  show "sysload_normalize_payload L payload files =
        (Inl ValueError, files(sysload_debug_path \<mapsto> payload))"
    if "sysload_rows L payload = Inr []"
    using that by (simp add: sysload_normalize_payload_def)
  show "zoneload_normalize_payload L payload files =
        (Inl ValueError, files(zoneload_debug_path \<mapsto> payload))"
    if "raise_first (zoneload_walk L payload) = Inr []"
    using that by (simp add: zoneload_normalize_payload_def)
  show "fst (sysload_normalize_payload L payload files) \<noteq> Inr []"
    using sysload_normalize_rows by blast
  show "fst (zoneload_normalize_payload L payload files) \<noteq> Inr []"
    using zoneload_normalize_rows by blast
qed

theorem zero_extraction_fails_witness:
  "sysload_rows ex_lib ex_garbage = Inr [] \<and>
   raise_first (zoneload_walk ex_lib ex_garbage) = Inr [] \<and>
   sysload_normalize_payload ex_lib ex_garbage Map.empty =
     (Inl ValueError, [''data/raw/unexpected_shape_debug.json'' \<mapsto> ex_garbage]) \<and>
   zoneload_normalize_payload ex_lib ex_garbage Map.empty =
     (Inl ValueError, [''data/raw/unexpected_shape_zonal.json'' \<mapsto> ex_garbage])"
proof -
  have s: "sysload_rows ex_lib ex_garbage = Inr []"
    by (simp add: py_eval sys_eval ex_eval)
  have z: "raise_first (zoneload_walk ex_lib ex_garbage) = Inr []"
    by (simp add: py_eval zone_eval ex_eval)
  show ?thesis
    using s z zero_extraction_fails [of ex_lib ex_garbage Map.empty]
    by (simp add: sysload_debug_path_def zoneload_debug_path_def)
qed

subsection \<open>Deriving the UTC timestamp\<close>

text \<open>
  Claim C9. In both normalizers, every row of a returned frame has \<open>ts_local\<close> equal to
  what \<open>pd.to_datetime\<close> returned for the time value extracted at some dict node of the
  payload, and \<open>ts_utc\<close> derived from it by the rule of the specification: a timestamp
  with timezone information is converted to UTC, a naive one keeps its wall-clock
  reading and has UTC attached, with no offset arithmetic.
\<close>

theorem utc_derivation_rule:
  "(fst (sysload_normalize_payload L payload files) = Inr rows \<longrightarrow>
      (\<forall>r\<in>set rows. ts_utc r = spec_utc (ts_local r) \<and>
         (\<exists>d\<in>set (dict_nodes payload). \<exists>tval. extract_time d = Some tval \<and>
            to_datetime L tval = Inr (ts_local r)))) \<and>
   (fst (zoneload_normalize_payload L payload files) = Inr zrows \<longrightarrow>
      (\<forall>r\<in>set zrows. z_ts_utc r = spec_utc (z_ts_local r) \<and>
         (\<exists>d\<in>set (dict_nodes payload). \<exists>t. first_key d TIME_KEYS = Some t \<and>
            to_datetime L t = Inr (z_ts_local r))))"
proof (intro conjI impI ballI)
  fix r
  assume "fst (sysload_normalize_payload L payload files) = Inr rows" and "r \<in> set rows"
  then obtain rows0 where "sysload_rows L payload = Inr rows0" "r \<in> set rows0"
    using sysload_normalize_rows by blast
  from sysload_rows_origin [OF this]
  show "ts_utc r = spec_utc (ts_local r)"
    and "\<exists>d\<in>set (dict_nodes payload). \<exists>tval. extract_time d = Some tval \<and>
           to_datetime L tval = Inr (ts_local r)"
    by (auto simp: derive_utc_spec)
next
  fix r
  assume "fst (zoneload_normalize_payload L payload files) = Inr zrows" and "r \<in> set zrows"
  then obtain rows0 r0 where rows0: "raise_first (zoneload_walk L payload) = Inr rows0"
    and r0: "r0 \<in> set rows0" and r: "r = fillna_zone_name r0"
    using zoneload_normalize_rows by blast
  from zoneload_rows_origin [OF rows0 r0]
  show "z_ts_utc r = spec_utc (z_ts_local r)"
    and "\<exists>d\<in>set (dict_nodes payload). \<exists>t. first_key d TIME_KEYS = Some t \<and>
           to_datetime L t = Inr (z_ts_local r)"
    by (auto simp: derive_utc_spec r)
qed

theorem utc_derivation_rule_witness:
  "fst (sysload_normalize_payload ex_lib ex_system_payload Map.empty) = Inr [ex_system_row_isone] \<and>
   fst (zoneload_normalize_payload ex_lib ex_zonal_payload Map.empty) =
     Inr [ex_zonal_row_sema, ex_zonal_row_ct] \<and>
   ts_local ex_system_row_isone = Timestamp 1704067500000000000 (Some (- 18000000000000)) \<and>
   ts_utc ex_system_row_isone = Timestamp 1704085500000000000 (Some 0) \<and>
   ts_utc ex_system_row_isone = spec_utc (ts_local ex_system_row_isone) \<and>
   z_ts_local ex_zonal_row_sema = Timestamp 1704067500000000000 None \<and>
   z_ts_utc ex_zonal_row_sema = Timestamp 1704067500000000000 (Some 0) \<and>
   z_ts_utc ex_zonal_row_sema = spec_utc (z_ts_local ex_zonal_row_sema) \<and>
   z_ts_utc ex_zonal_row_ct = spec_utc (z_ts_local ex_zonal_row_ct)"
proof -
  have s: "fst (sysload_normalize_payload ex_lib ex_system_payload Map.empty) = Inr [ex_system_row_isone]"
    by (simp add: py_eval sys_eval ex_eval)
  have w: "raise_first (zoneload_walk ex_lib ex_zonal_payload) = Inr [ex_zonal_row_ct, ex_zonal_row_sema]"
    by (simp add: py_eval zone_eval ex_eval)
  have n: "map fillna_zone_name [ex_zonal_row_ct, ex_zonal_row_sema] = [ex_zonal_row_ct, ex_zonal_row_sema]"
    by (simp add: fillna_zone_name_def ex_zonal_row_ct_def ex_zonal_row_sema_def)
  have o: "sort_key (\<lambda>r. (ts_key (z_ts_utc r), opt_key (zone_id r), opt_key (zone_name r)))
      [ex_zonal_row_ct, ex_zonal_row_sema] = [ex_zonal_row_sema, ex_zonal_row_ct]"
    by (simp add: ex_zonal_row_ct_def ex_zonal_row_sema_def ts_key_def opt_key_def)
  have z: "fst (zoneload_normalize_payload ex_lib ex_zonal_payload Map.empty) =
     Inr [ex_zonal_row_sema, ex_zonal_row_ct]"
    by (simp only: zoneload_normalize_payload_def w sum.case list.distinct if_False n o fst_conv)
  have f: "ts_local ex_system_row_isone = Timestamp 1704067500000000000 (Some (- 18000000000000))"
    "ts_utc ex_system_row_isone = Timestamp 1704085500000000000 (Some 0)"
    "z_ts_local ex_zonal_row_sema = Timestamp 1704067500000000000 None"
    "z_ts_utc ex_zonal_row_sema = Timestamp 1704067500000000000 (Some 0)"
    by (simp_all add: ex_system_row_isone_def ex_zonal_row_sema_def)
  have a: "ts_utc ex_system_row_isone = spec_utc (ts_local ex_system_row_isone)"
    using utc_derivation_rule [of ex_lib ex_system_payload Map.empty "[ex_system_row_isone]"] s
    by (meson list.set_intros(1))
  have b: "z_ts_utc ex_zonal_row_sema = spec_utc (z_ts_local ex_zonal_row_sema)"
    "z_ts_utc ex_zonal_row_ct = spec_utc (z_ts_local ex_zonal_row_ct)"
    using utc_derivation_rule [of ex_lib ex_zonal_payload Map.empty _ "[ex_zonal_row_sema, ex_zonal_row_ct]"] z
    by (meson list.set_intros)+
  show ?thesis
    using s z f a b by blast
qed

subsection \<open>Zone identity of a zonal row\<close>

text \<open>
  Claim C5: every record in the output of the zonal normalizer has \<open>zone_id\<close> and
  \<open>zone_name\<close> not both null, and a node whose zone identity cannot be recovered
  contributes no record. This fails on a node whose only zone field is an object,
  \<open>{"interval_begin_date": ..., "LoadZone": {"@LocId": "4004", "$": ".Z.CONNECTICUT"},
  "estimated_load_mw": 3000}\<close>: the guard of \<open>walk\<close> lets it through because the raw id
  field is present, the id conversion gives \<open>None\<close> for an object, nothing is backfilled,
  and the frame returned holds a row whose \<open>zone_id\<close> and \<open>zone_name\<close> are both null.
\<close>

theorem zonal_row_without_zone_identity:
  "fst (zoneload_normalize_payload ex_lib ex_zonal_no_identity Map.empty) = Inr [ex_zonal_row_null] \<and>
   zone_id ex_zonal_row_null = None \<and> zone_name ex_zonal_row_null = None"
  by (simp add: py_eval zone_eval ex_eval)

subsection \<open>Backfill from the zone table\<close>






subsection \<open>Wrapper levels and the fast path\<close>

text \<open>
  Claim C8 as stated fails for the system normalizer. The payload
  \<open>{"FiveMinSystemLoad": [{"BeginDate": ..., "LoadMw": 3000, "Location": "CT"}]}\<close> is
  normalized by the fast path to a row with location \<open>ISONE\<close>; wrapped in a list it is
  normalized by the full traversal to a row with location \<open>CT\<close>. On a list entry that
  nests a second time and value pair, the fast path yields one row and the traversal two.
\<close>

theorem shape_robustness_counterexample:
  "fst (sysload_normalize_payload ex_lib ex_system_payload Map.empty) = Inr [ex_system_row_isone] \<and>
   fst (sysload_normalize_payload ex_lib (JList [ex_system_payload]) Map.empty) = Inr [ex_system_row_ct] \<and>
   ex_system_row_ct \<noteq> ex_system_row_isone \<and>
   fast_path ex_lib ex_system_payload = [Inr ex_system_row_isone] \<and>
   sysload_walk ex_lib ex_system_payload = [Inr ex_system_row_ct] \<and>
   length (fast_path ex_lib ex_system_nested) = 1 \<and>
   length (sysload_walk ex_lib ex_system_nested) = 2"
  by (simp add: py_eval sys_eval ex_eval)

lemma sysload_walk_scalar: "is_scalar v \<Longrightarrow> sysload_walk L v = []"
  by (cases v) simp_all

lemma extract_loc_keys_default:
  "list_all (\<lambda>k. case map_of d k of Some v \<Rightarrow> \<not> truthy v | None \<Rightarrow> True) ks \<Longrightarrow>
     extract_loc_keys L d ks = ''ISONE''"
  by (induction ks) (auto split: option.splits)

lemma upper_ISONE: "upper L ''ISONE'' = ''ISONE''"
  by (simp add: upper_def is_ascii_def ascii_upper_def upper_char_def)

lemma plain_entry_rows:
  assumes "plain_entry e"
  shows "fast_row L e = sysload_walk L e"
proof (cases e)
  case (JDict d)
  have sc: "list_all (\<lambda>kv. is_scalar (snd kv)) d"
    and loc: "extract_loc L d = ''ISONE''"
    using assms by (simp_all add: plain_entry_def JDict extract_loc_def extract_loc_keys_default)
  have "map (sysload_walk L) (map snd d) = map (\<lambda>v. []) (map snd d)"
    by (rule map_cong [OF refl]) (use sc in \<open>auto simp: list_all_iff sysload_walk_scalar\<close>)
  then have ch: "concat (map (sysload_walk L) (map snd d)) = []" by simp
  have "walk_record L d tval lval = fast_record L tval lval" for tval lval
    by (simp add: walk_record_def fast_record_def loc upper_ISONE Let_def split: sum.splits)
  then have "sysload_node_row L d = fast_row L (JDict d)"
    by (cases "extract_time d"; cases "extract_val d")
       (simp_all add: sysload_node_row_def fast_row_def)
  then show ?thesis using ch by (simp add: JDict)
next
  case (JList its)
  then show ?thesis using assms by (simp add: plain_entry_def)
qed (simp_all add: fast_row_def)

lemma fast_path_not_dict [simp]: "fast_path L (JList its) = []"
  by (simp add: fast_path_def)

text \<open>
  Claim C8, amended. Wrapping a payload \<open>P\<close> one level deeper in a list or in a single-key
  map yields the same records as \<open>P\<close>, and the same exception where \<open>P\<close> raises one:
  always for the zonal normalizer and for the traversal of the system normalizer, and
  for the system \<open>normalize_payload\<close> whenever its fast path finds no entry with time and
  value on \<open>P\<close> (and, for a map wrapper, none on the wrapped payload). The system fast
  path over the \<open>FiveMinSystemLoad\<close> list and the full traversal of the same entries
  produce the same records when every entry is plain: a scalar, or a map with scalar
  values only and no truthy \<open>Location\<close>, \<open>Loc\<close>, \<open>Zone\<close> or \<open>LocName\<close> field.
\<close>

theorem wrapper_transparency:
  "zoneload_walk L (JList [P]) = zoneload_walk L P \<and>
   zoneload_walk L (JDict [(k, P)]) = zoneload_walk L P \<and>
   fst (zoneload_normalize_payload L (JList [P]) files) = fst (zoneload_normalize_payload L P files) \<and>
   fst (zoneload_normalize_payload L (JDict [(k, P)]) files) = fst (zoneload_normalize_payload L P files) \<and>
   sysload_walk L (JList [P]) = sysload_walk L P \<and>
   sysload_walk L (JDict [(k, P)]) = sysload_walk L P \<and>
   (fast_path L P = [] \<longrightarrow>
      fst (sysload_normalize_payload L (JList [P]) files) = fst (sysload_normalize_payload L P files)) \<and>
   (fast_path L P = [] \<and> fast_path L (JDict [(k, P)]) = [] \<longrightarrow>
      fst (sysload_normalize_payload L (JDict [(k, P)]) files) = fst (sysload_normalize_payload L P files)) \<and>
   (map_of d ''FiveMinSystemLoad'' = Some (JList entries) \<and> list_all plain_entry entries \<longrightarrow>
      fast_path L (JDict d) = sysload_walk L (JList entries))"
proof -
  have z1: "zoneload_walk L (JList [P]) = zoneload_walk L P" by simp
  have z2: "zoneload_walk L (JDict [(k, P)]) = zoneload_walk L P"
    by (simp add: zoneload_single_key_row)
  have s1: "sysload_walk L (JList [P]) = sysload_walk L P" by simp
  have s2: "sysload_walk L (JDict [(k, P)]) = sysload_walk L P"
    by (simp add: sysload_single_key_row)
  have z3: "fst (zoneload_normalize_payload L (JList [P]) files) = fst (zoneload_normalize_payload L P files)"
    unfolding zoneload_normalize_payload_def z1
    by (cases "raise_first (zoneload_walk L P)") simp_all
  have z4: "fst (zoneload_normalize_payload L (JDict [(k, P)]) files) = fst (zoneload_normalize_payload L P files)"
    unfolding zoneload_normalize_payload_def z2
    by (cases "raise_first (zoneload_walk L P)") simp_all
  have s3: "fst (sysload_normalize_payload L (JList [P]) files) = fst (sysload_normalize_payload L P files)"
    if "fast_path L P = []"
  proof -
    have "sysload_rows L (JList [P]) = sysload_rows L P"
      using that unfolding sysload_rows_def s1 by simp
    then show ?thesis
      unfolding sysload_normalize_payload_def
      by (cases "sysload_rows L P") simp_all
  qed
  have s4: "fst (sysload_normalize_payload L (JDict [(k, P)]) files) = fst (sysload_normalize_payload L P files)"
    if "fast_path L P = [] \<and> fast_path L (JDict [(k, P)]) = []"
  proof -
    have "sysload_rows L (JDict [(k, P)]) = sysload_rows L P"
      using that unfolding sysload_rows_def s2 by simp
    then show ?thesis
      unfolding sysload_normalize_payload_def
      by (cases "sysload_rows L P") simp_all
  qed
  have f: "fast_path L (JDict d) = sysload_walk L (JList entries)"
    if "map_of d ''FiveMinSystemLoad'' = Some (JList entries) \<and> list_all plain_entry entries"
  proof -
    have eq: "map (fast_row L) entries = map (sysload_walk L) entries"
      by (rule map_cong [OF refl]) (use that in \<open>auto simp: list_all_iff plain_entry_rows\<close>)
    show ?thesis using that by (simp add: fast_path_def eq)
  qed
  show ?thesis using z1 z2 z3 z4 s1 s2 s3 s4 f by blast
qed

theorem wrapper_transparency_witness:
  "fast_path ex_lib ex_system_entry = [] \<and>
   fast_path ex_lib (JDict [(''data'', ex_system_entry)]) = [] \<and>
   fst (sysload_normalize_payload ex_lib ex_system_entry Map.empty) = Inr [ex_system_row_ct] \<and>
   fst (sysload_normalize_payload ex_lib (JList [ex_system_entry]) Map.empty) = Inr [ex_system_row_ct] \<and>
   fst (sysload_normalize_payload ex_lib (JDict [(''data'', ex_system_entry)]) Map.empty) =
     Inr [ex_system_row_ct] \<and>
   map_of [(''FiveMinSystemLoad'', JList ex_plain_entries)] ''FiveMinSystemLoad'' =
     Some (JList ex_plain_entries) \<and>
   list_all plain_entry ex_plain_entries \<and>
   fast_path ex_lib ex_system_plain = sysload_walk ex_lib (JList ex_plain_entries) \<and>
   fst (zoneload_normalize_payload ex_lib (JList [ex_zonal_id_only]) Map.empty) =
     fst (zoneload_normalize_payload ex_lib ex_zonal_id_only Map.empty)"
proof -
  have f1: "fast_path ex_lib ex_system_entry = []"
    and f2: "fast_path ex_lib (JDict [(''data'', ex_system_entry)]) = []"
    by (simp_all add: fast_path_def ex_system_entry_def)
  have n: "fst (sysload_normalize_payload ex_lib ex_system_entry Map.empty) = Inr [ex_system_row_ct]"
    by (simp add: py_eval sys_eval ex_eval)
  have m: "map_of [(''FiveMinSystemLoad'', JList ex_plain_entries)] ''FiveMinSystemLoad'' =
     Some (JList ex_plain_entries)"
    by simp
  have p: "list_all plain_entry ex_plain_entries"
    by (simp add: plain_entry_def ex_plain_entries_def LOC_KEYS_def)
  note t = wrapper_transparency [of ex_lib ex_system_entry "''data''" Map.empty
      "[(''FiveMinSystemLoad'', JList ex_plain_entries)]" ex_plain_entries]
  note u = wrapper_transparency [of ex_lib ex_zonal_id_only]
  have a: "fst (sysload_normalize_payload ex_lib (JList [ex_system_entry]) Map.empty) = Inr [ex_system_row_ct]"
    using t f1 n by metis
  have b: "fst (sysload_normalize_payload ex_lib (JDict [(''data'', ex_system_entry)]) Map.empty) =
     Inr [ex_system_row_ct]"
    using t f1 f2 n by metis
  have c: "fast_path ex_lib ex_system_plain = sysload_walk ex_lib (JList ex_plain_entries)"
    unfolding ex_system_plain_def using t m p by blast
  have d: "fst (zoneload_normalize_payload ex_lib (JList [ex_zonal_id_only]) Map.empty) =
     fst (zoneload_normalize_payload ex_lib ex_zonal_id_only Map.empty)"
    using u by blast
  show ?thesis using f1 f2 n m p a b c d by blast
qed

end
